theory Spec2Isabelle
  imports Main
begin

section \<open>Python values and exceptions\<close>

text \<open>
  The module \<^verbatim>\<open>webapp/publisher/snaps/build_views.py\<close> is a set of Flask view functions
  over three remote clients: the dashboard client \<^verbatim>\<open>api\<close>, the build farm client
  \<^verbatim>\<open>launchpad\<close> and the source host client \<^verbatim>\<open>GitHub\<close>. The clients are not part of the
  module; they are parameters of the model (records of functions), and every call of a
  client may raise. An exception that a view function does not catch is its outcome.
  The decorators \<^verbatim>\<open>login_required\<close> and \<^verbatim>\<open>csrf.exempt\<close> are outside the module as well:
  a view function here is the body that runs once the decorator lets the request in.
\<close>

datatype py_exc =
    HTTPError int
  | ApiResponseErrorList int "string list"
  | ApiError string
  | InvalidYAML
  | KeyError string
  | TypeError
  | ValueError
  | AttributeError string
  | Abort int string
  | OtherException string

text \<open>
  \<open>HTTPError c\<close> is \<^verbatim>\<open>requests.exceptions.HTTPError\<close> with \<^verbatim>\<open>e.response.status_code == c\<close>;
  \<open>ApiResponseErrorList c errors\<close> carries \<^verbatim>\<open>status_code\<close> and \<^verbatim>\<open>errors\<close>;
  \<open>Abort c msg\<close> is what \<^verbatim>\<open>flask.abort(c, msg)\<close> raises.
\<close>

type_synonym 'a result = "py_exc + 'a"

text \<open>Truthiness of a value that is \<^verbatim>\<open>None\<close> or a string.\<close>

definition truthy :: "string option \<Rightarrow> bool" where
  "truthy v = (case v of None \<Rightarrow> False | Some s \<Rightarrow> s \<noteq> [])"

text \<open>\<^verbatim>\<open>str(v)\<close> as an f-string prints it.\<close>

definition py_str :: "string option \<Rightarrow> string" where
  "py_str v = (case v of None \<Rightarrow> ''None'' | Some s \<Rightarrow> s)"

subsection \<open>Slices and \<^verbatim>\<open>str.split\<close>\<close>

text \<open>
  \<^verbatim>\<open>slice(start, stop)\<close> with integer bounds and no step. Indexing a list of length \<open>n\<close>
  with it adds \<open>n\<close> to a negative bound and clamps each bound to \<open>0..n\<close>; the items from
  the adjusted start up to the adjusted stop are returned, none when start is not
  below stop.
\<close>

datatype slice = Slice int int

definition adjust_index :: "int \<Rightarrow> int \<Rightarrow> int" where
  "adjust_index n i = (if i < 0 then max 0 (i + n) else min i n)"

fun getitem_slice :: "'a list \<Rightarrow> slice \<Rightarrow> 'a list" where
  "getitem_slice xs (Slice start stop) =
     (let n = int (length xs);
          s = adjust_index n start;
          e = adjust_index n stop
      in take (nat (e - s)) (drop (nat s) xs))"

text \<open>
  \<^verbatim>\<open>s.split(sep)\<close> for a one-character separator: the pieces between the separators,
  always at least one piece.
\<close>

fun split :: "char \<Rightarrow> string \<Rightarrow> string list" where
  "split sep [] = [[]]"
| "split sep (c # cs) =
     (if c = sep then [] # split sep cs
      else (case split sep cs of
              [] \<Rightarrow> [[c]]
            | w # ws \<Rightarrow> (c # w) # ws))"

text \<open>\<^verbatim>\<open>xs[-1]\<close>: the last item, \<^verbatim>\<open>IndexError\<close> (here \<open>None\<close>) on an empty list.\<close>

definition getitem_last :: "'a list \<Rightarrow> 'a option" where
  "getitem_last xs = (case rev xs of [] \<Rightarrow> None | x # _ \<Rightarrow> Some x)"

text \<open>
  \<^verbatim>\<open>owner, repo = s.split("/")\<close>: unpacking needs exactly two pieces, otherwise
  \<^verbatim>\<open>ValueError\<close>.
\<close>

definition unpack2 :: "string list \<Rightarrow> (string \<times> string) result" where
  "unpack2 xs = (case xs of [a, b] \<Rightarrow> Inr (a, b) | _ \<Rightarrow> Inl ValueError)"

section \<open>Data of the remote services\<close>

text \<open>A build entry of the build farm, as \<^verbatim>\<open>launchpad.get_snap_builds\<close> lists it.\<close>

record lp_build =
  buildstate :: string
  store_upload_status :: "string option"
  self_link :: string
  arch_tag :: string
  datebuilt :: "string option"
  duration :: "string option"
  build_log_url :: "string option"
  revision_id :: "int option"
  title :: string

text \<open>A snap entry of the build farm. \<open>store_name\<close> may be unset.\<close>

record lp_snap =
  store_name :: "string option"
  git_repository_url :: string
  snap_self_link :: string

text \<open>
  One entry of \<^verbatim>\<open>launchpad.get_builders_status()\<close>, a dict from architecture tag to a
  dict with the key \<^verbatim>\<open>estimated_duration\<close>. The value is whatever the farm reports and
  may be \<^verbatim>\<open>None\<close>.
\<close>

record builder_status =
  estimated_duration :: "string option"

text \<open>The entries of \<^verbatim>\<open>details\<close> that the module reads: \<^verbatim>\<open>snap_id\<close>, \<^verbatim>\<open>snap_name\<close>, \<^verbatim>\<open>title\<close>.\<close>

record snap_info =
  details_snap_id :: string
  details_snap_name :: string
  details_title :: string

record launchpad =
  get_snap_builds :: "string option \<Rightarrow> lp_build list result"
  get_builders_status :: "(string \<times> builder_status) list result"
  get_snap_by_store_name :: "string \<Rightarrow> lp_snap option result"
  get_snap :: "string \<Rightarrow> lp_snap option result"
  get_snap_build :: "string \<Rightarrow> string \<Rightarrow> lp_build option result"
  get_snap_build_log :: "string \<Rightarrow> string \<Rightarrow> string result"
  request_DELETE :: "string \<Rightarrow> unit result"
  create_snap :: "string \<Rightarrow> string \<Rightarrow> string \<Rightarrow> unit result"
  is_snap_building :: "string option \<Rightarrow> bool result"
  cancel_snap_builds :: "string option \<Rightarrow> unit result"
  build_snap :: "string option \<Rightarrow> unit result"

text \<open>
  The methods of a \<^verbatim>\<open>GitHub(token)\<close> object take the token as their first argument
  here; \<^verbatim>\<open>GitHub()\<close> is the token \<open>None\<close>.
\<close>

record github =
  get_snapcraft_yaml_location :: "string option \<Rightarrow> string \<Rightarrow> string \<Rightarrow> string option result"
  get_snapcraft_yaml_name :: "string option \<Rightarrow> string \<Rightarrow> string \<Rightarrow> string result"
  check_permissions_over_repo :: "string option \<Rightarrow> string \<Rightarrow> string \<Rightarrow> bool result"
  get_hook_by_url :: "string option \<Rightarrow> string \<Rightarrow> string \<Rightarrow> string \<Rightarrow> string option result"
  create_hook :: "string option \<Rightarrow> string \<Rightarrow> string \<Rightarrow> string \<Rightarrow> unit result"
  validate_webhook_signature :: "string \<Rightarrow> string option \<Rightarrow> bool result"

text \<open>
  The dashboard client is called with \<^verbatim>\<open>flask.session\<close>; the session is part of the
  environment of one request, so it is not an argument here.
  \<open>get_account_snaps\<close> gives the keys of the dict the client returns;
  \<open>get_package_upload_macaroon\<close> gives the \<^verbatim>\<open>"macaroon"\<close> entry of its result.
\<close>

record api =
  get_snap_info :: "string \<Rightarrow> snap_info result"
  get_account_snaps :: "string list result"
  get_package_upload_macaroon :: "string \<Rightarrow> string list \<Rightarrow> string result"

text \<open>
  The environment of one request: the three clients, the imported function
  \<^verbatim>\<open>map_build_and_upload_states\<close> (module \<^verbatim>\<open>webapp.publisher.snaps.builds\<close>, whose body
  is not in this module), \<^verbatim>\<open>md5(s.encode("UTF-8")).hexdigest()\<close>, the module constant
  \<^verbatim>\<open>GITHUB_SNAPCRAFT_USER_TOKEN\<close> and the session entry \<^verbatim>\<open>github_auth_secret\<close>.
\<close>

record env =
  lp :: launchpad
  gh :: github
  dashboard :: api
  map_build_and_upload_states :: "string \<Rightarrow> string option \<Rightarrow> string result"
  md5_hexdigest :: "string \<Rightarrow> string"
  GITHUB_SNAPCRAFT_USER_TOKEN :: "string option"
  github_auth_secret :: "string option"

section \<open>Listing builds\<close>

text \<open>
  The dict built for one build. \<open>queue_time\<close> is only a key of the dicts of
  \<^verbatim>\<open>get_builds\<close>; \<^verbatim>\<open>None\<close> is \<open>None\<close>.
\<close>

record snap_build =
  build_id :: string
  arch_tag :: string
  datebuilt :: "string option"
  duration :: "string option"
  logs :: "string option"
  revision_id :: "int option"
  status :: string
  title :: string

record snap_build_queued = snap_build +
  queue_time :: "string option"

record builds_context =
  total_builds :: nat
  snap_builds :: "snap_build_queued list"

text \<open>\<^verbatim>\<open>build["self_link"].split("/")[-1]\<close>\<close>

definition self_link_id :: "string \<Rightarrow> string result" where
  "self_link_id link =
     (case getitem_last (split CHR ''/'' link) of
        None \<Rightarrow> Inl (OtherException ''IndexError'')
      | Some s \<Rightarrow> Inr s)"

text \<open>
  The loop of \<^verbatim>\<open>get_builds\<close> over the selected builds. \<open>builders_status\<close> is the local
  variable of that name (\<open>None\<close> at first), \<open>acc\<close> the list \<^verbatim>\<open>snap_builds\<close>.
\<close>

fun get_builds_loop ::
  "env \<Rightarrow> lp_build list \<Rightarrow> (string \<times> builder_status) list option \<Rightarrow>
   snap_build_queued list \<Rightarrow> snap_build_queued list result" where
  "get_builds_loop env [] builders_status acc = Inr acc"
| "get_builds_loop env (build # builds) builders_status acc =
     (case map_build_and_upload_states env (buildstate build) (store_upload_status build) of
        Inl e \<Rightarrow> Inl e
      | Inr st \<Rightarrow>
     (case self_link_id (self_link build) of
        Inl e \<Rightarrow> Inl e
      | Inr ident \<Rightarrow>
        let snap_build = \<lparr>
              build_id = ident,
              arch_tag = lp_build.arch_tag build,
              datebuilt = lp_build.datebuilt build,
              duration = lp_build.duration build,
              logs = build_log_url build,
              revision_id = lp_build.revision_id build,
              status = st,
              title = lp_build.title build,
              queue_time = None \<rparr>
        in
        if buildstate build = ''Needs building'' then
          (case (case builders_status of
                   None \<Rightarrow> get_builders_status (lp env)
                 | Some [] \<Rightarrow> get_builders_status (lp env)
                 | Some d \<Rightarrow> Inr d) of
             Inl e \<Rightarrow> Inl e
           | Inr d \<Rightarrow>
               (case map_of d (lp_build.arch_tag build) of
                  None \<Rightarrow> Inl (KeyError (lp_build.arch_tag build))
                | Some b \<Rightarrow>
                    get_builds_loop env builds (Some d)
                      (acc @ [snap_build\<lparr>queue_time := estimated_duration b\<rparr>])))
        else get_builds_loop env builds builders_status (acc @ [snap_build])))"

definition get_builds :: "env \<Rightarrow> lp_snap \<Rightarrow> slice \<Rightarrow> builds_context result" where
  "get_builds env lp_snap selection =
     (case get_snap_builds (lp env) (store_name lp_snap) of
        Inl e \<Rightarrow> Inl e
      | Inr builds \<Rightarrow>
          let total = length builds;
              builds = getitem_slice builds selection
          in (case get_builds_loop env builds None [] of
                Inl e \<Rightarrow> Inl e
              | Inr bs \<Rightarrow> Inr \<lparr>total_builds = total, snap_builds = bs\<rparr>))"

section \<open>Validating a repository\<close>

text \<open>
  The dict that \<^verbatim>\<open>validate_repo\<close> returns: the key \<^verbatim>\<open>success\<close>, and the key \<^verbatim>\<open>error\<close>
  when one was stored (\<open>None\<close>: the key is absent). An error dict has \<^verbatim>\<open>type\<close> and
  \<^verbatim>\<open>message\<close>, and for a name mismatch also \<^verbatim>\<open>yaml_location\<close> and \<^verbatim>\<open>gh_snap_name\<close>.
\<close>

record error_info =
  error_type :: string
  message :: string
  yaml_location :: "string option"
  gh_snap_name :: "string option"

record validation =
  success :: bool
  error :: "error_info option"

definition validate_repo ::
  "env \<Rightarrow> string option \<Rightarrow> string option \<Rightarrow> string \<Rightarrow> string \<Rightarrow> validation result" where
  "validate_repo env github_token snap_name gh_owner gh_repo =
     (case get_snapcraft_yaml_location (gh env) github_token gh_owner gh_repo of
        Inl e \<Rightarrow> Inl e
      | Inr yaml_loc \<Rightarrow>
          if \<not> truthy yaml_loc then
            Inr \<lparr>success = False,
                 error = Some \<lparr>
                   error_type = ''MISSING_YAML_FILE'',
                   message = ''Missing snapcraft.yaml: this repo needs a snapcraft.yaml ''
                     @ ''file, so that Snapcraft can make it buildable, installable ''
                     @ ''and runnable.'',
                   yaml_location = None,
                   gh_snap_name = None\<rparr>\<rparr>
          else
            (case get_snapcraft_yaml_name (gh env) github_token gh_owner gh_repo of
               Inl InvalidYAML \<Rightarrow>
                 Inr \<lparr>success = False,
                      error = Some \<lparr>
                        error_type = ''INVALID_YAML_FILE'',
                        message = ''Invalid snapcraft.yaml: there was an issue parsing the ''
                          @ ''snapcraft.yaml for '' @ py_str snap_name @ ''.'',
                        yaml_location = None,
                        gh_snap_name = None\<rparr>\<rparr>
             | Inl e \<Rightarrow> Inl e
             | Inr gh_name \<Rightarrow>
                 if Some gh_name \<noteq> snap_name then
                   Inr \<lparr>success = False,
                        error = Some \<lparr>
                          error_type = ''SNAP_NAME_DOES_NOT_MATCH'',
                          message = ''Name mismatch: the snapcraft.yaml uses the snap ''
                            @ ''name \"'' @ gh_name @ ''\", but you've registered''
                            @ '' the name \"'' @ py_str snap_name @ ''\". Update your ''
                            @ ''snapcraft.yaml to continue.'',
                          yaml_location = yaml_loc,
                          gh_snap_name = Some gh_name\<rparr>\<rparr>
                 else Inr \<lparr>success = True, error = None\<rparr>))"

section \<open>Responses and effects\<close>

text \<open>
  What a view function returns. \<open>UrlFor endpoint snap_name\<close> is
  \<^verbatim>\<open>flask.url_for(endpoint, snap_name=snap_name)\<close>. \<open>HandleErrorList\<close> and \<open>HandleError\<close>
  stand for the outcome of \<^verbatim>\<open>_handle_error_list(errors)\<close> and \<^verbatim>\<open>_handle_error(api_error)\<close>
  of \<^verbatim>\<open>webapp.publisher.views\<close>.
\<close>

datatype url = UrlFor string string

record builds_json =
  json_total_builds :: "nat option"
  json_snap_builds :: "snap_build_queued list"

record build_page =
  page_snap_id :: string
  page_snap_name :: string
  page_snap_title :: string
  page_snap_build :: "snap_build option"
  raw_logs :: "string option"

datatype response =
    Text string int
  | JsonBuilds builds_json
  | JsonResult validation
  | Redirect url
  | RenderBuild build_page
  | HandleErrorList "string list"
  | HandleError py_exc

text \<open>
  The calls that change something outside the request, in the order they are made: a
  flashed message, and the writes to the build farm and to the source host. A call is
  recorded when it is made, whether or not it raises.
\<close>

datatype effect =
    Flash string string
  | LaunchpadDelete string
  | CreateSnap string string string
  | CreateHook string string string
  | CancelSnapBuilds "string option"
  | BuildSnap "string option"

type_synonym 'a io = "effect list \<Rightarrow> 'a result \<times> effect list"

definition return_io :: "'a \<Rightarrow> 'a io" where
  "return_io x = (\<lambda>s. (Inr x, s))"

definition raise_io :: "py_exc \<Rightarrow> 'a io" where
  "raise_io e = (\<lambda>s. (Inl e, s))"

definition bind_io :: "'a io \<Rightarrow> ('a \<Rightarrow> 'b io) \<Rightarrow> 'b io" where
  "bind_io m f = (\<lambda>s. case m s of (Inl e, s') \<Rightarrow> (Inl e, s') | (Inr x, s') \<Rightarrow> f x s')"

text \<open>A call that only reads: its result, nothing recorded.\<close>

definition read_io :: "'a result \<Rightarrow> 'a io" where
  "read_io r = (\<lambda>s. (r, s))"

text \<open>A call that writes: recorded, then its result.\<close>

definition call_io :: "effect \<Rightarrow> 'a result \<Rightarrow> 'a io" where
  "call_io ev r = (\<lambda>s. (r, s @ [ev]))"

text \<open>\<^verbatim>\<open>try: m except: h\<close>; the handler re-raises what it does not catch.\<close>

definition try_except :: "'a io \<Rightarrow> (py_exc \<Rightarrow> 'a io) \<Rightarrow> 'a io" where
  "try_except m h = (\<lambda>s. case m s of (Inl e, s') \<Rightarrow> h e s' | (Inr x, s') \<Rightarrow> (Inr x, s'))"

text \<open>A view function starts with nothing recorded.\<close>

definition run :: "'a io \<Rightarrow> 'a result \<times> effect list" where
  "run m = m []"

text \<open>
  The opening of the view functions that look the snap up:
  \<^verbatim>\<open>try: details = api.get_snap_info(...)\<close> with its two \<^verbatim>\<open>except\<close> clauses. The left
  summand is the response returned from an \<^verbatim>\<open>except\<close> clause.
\<close>

definition snap_details :: "env \<Rightarrow> string \<Rightarrow> (response + snap_info) result" where
  "snap_details env snap_name =
     (case get_snap_info (dashboard env) snap_name of
        Inl (ApiResponseErrorList c errors) \<Rightarrow>
          if c = 404 then Inl (Abort 404 (''No snap named '' @ snap_name))
          else Inr (Inl (HandleErrorList errors))
      | Inl (ApiError m) \<Rightarrow> Inr (Inl (HandleError (ApiError m)))
      | Inl e \<Rightarrow> Inl e
      | Inr details \<Rightarrow> Inr (Inr details))"

section \<open>The JSON list of builds and the page of one build\<close>

text \<open>
  \<open>start\<close> and \<open>size\<close> are \<^verbatim>\<open>flask.request.args.get(..., type=int)\<close>: \<open>None\<close> when the
  parameter is missing or is not an integer, and then the default is used.
\<close>

definition get_snap_builds_json ::
  "env \<Rightarrow> string \<Rightarrow> int option \<Rightarrow> int option \<Rightarrow> response result" where
  "get_snap_builds_json env snap_name arg_start arg_size =
     (case snap_details env snap_name of
        Inl e \<Rightarrow> Inl e
      | Inr (Inl resp) \<Rightarrow> Inr resp
      | Inr (Inr details) \<Rightarrow>
          let start = (case arg_start of None \<Rightarrow> 0 | Some i \<Rightarrow> i);
              size = (case arg_size of None \<Rightarrow> 15 | Some i \<Rightarrow> i);
              build_slice = Slice start size
          in (case get_snap_by_store_name (lp env) (details_snap_name details) of
                Inl e \<Rightarrow> Inl e
              | Inr None \<Rightarrow>
                  Inr (JsonBuilds \<lparr>json_total_builds = None, json_snap_builds = []\<rparr>)
              | Inr (Some lp_snap) \<Rightarrow>
                  (case get_builds env lp_snap build_slice of
                     Inl e \<Rightarrow> Inl e
                   | Inr c \<Rightarrow>
                       Inr (JsonBuilds \<lparr>json_total_builds = Some (total_builds c),
                                         json_snap_builds = snap_builds c\<rparr>))))"

definition get_snap_build :: "env \<Rightarrow> string \<Rightarrow> string \<Rightarrow> response result" where
  "get_snap_build env snap_name build_no =
     (case snap_details env snap_name of
        Inl e \<Rightarrow> Inl e
      | Inr (Inl resp) \<Rightarrow> Inr resp
      | Inr (Inr details) \<Rightarrow>
          let context = \<lparr>
                page_snap_id = details_snap_id details,
                page_snap_name = details_snap_name details,
                page_snap_title = details_title details,
                page_snap_build = None,
                raw_logs = None\<rparr>
          in (case launchpad.get_snap_build (lp env) (details_snap_name details) build_no of
                Inl e \<Rightarrow> Inl e
              | Inr None \<Rightarrow> Inr (RenderBuild context)
              | Inr (Some lp_build) \<Rightarrow>
                 (case map_build_and_upload_states env (buildstate lp_build)
                         (store_upload_status lp_build) of
                    Inl e \<Rightarrow> Inl e
                  | Inr st \<Rightarrow>
                 (case self_link_id (self_link lp_build) of
                    Inl e \<Rightarrow> Inl e
                  | Inr ident \<Rightarrow>
                      let context = context\<lparr>page_snap_build := Some \<lparr>
                            build_id = ident,
                            arch_tag = lp_build.arch_tag lp_build,
                            datebuilt = lp_build.datebuilt lp_build,
                            duration = lp_build.duration lp_build,
                            logs = build_log_url lp_build,
                            revision_id = lp_build.revision_id lp_build,
                            status = st,
                            title = lp_build.title lp_build\<rparr>\<rparr>
                      in if truthy (build_log_url lp_build) then
                           (case get_snap_build_log (lp env) (details_snap_name details) build_no of
                              Inl e \<Rightarrow> Inl e
                            | Inr log \<Rightarrow> Inr (RenderBuild (context\<lparr>raw_logs := Some log\<rparr>)))
                         else Inr (RenderBuild context)))))"

section \<open>Requesting a build\<close>

text \<open>
  The body of \<^verbatim>\<open>post_build\<close>; the decorator \<^verbatim>\<open>login_required\<close> has let the request
  through. \<open>request_build\<close> is the body of its \<^verbatim>\<open>try\<close> block.
\<close>

definition request_build :: "env \<Rightarrow> string option \<Rightarrow> unit io" where
  "request_build env name =
     bind_io (read_io (is_snap_building (lp env) name)) (\<lambda>building.
     bind_io (if building
              then call_io (CancelSnapBuilds name) (cancel_snap_builds (lp env) name)
              else return_io ()) (\<lambda>_.
     call_io (BuildSnap name) (build_snap (lp env) name)))"

definition post_build :: "env \<Rightarrow> string \<Rightarrow> response io" where
  "post_build env snap_name =
     bind_io (read_io (get_account_snaps (dashboard env))) (\<lambda>account_snaps.
     if snap_name \<notin> set account_snaps then
       return_io (JsonResult \<lparr>success = False,
         error = Some \<lparr>
           error_type = ''FORBIDDEN'',
           message = ''You are not allowed to request '' @ ''builds for this snap'',
           yaml_location = None,
           gh_snap_name = None\<rparr>\<rparr>)
     else
       bind_io
         (try_except
            (bind_io (request_build env (Some snap_name)) (\<lambda>_. return_io None))
            (\<lambda>e. case e of
                   HTTPError c \<Rightarrow>
                     if c \<in> {408, 404}
                     then return_io (Some (JsonResult \<lparr>success = False, error = None\<rparr>))
                     else raise_io e
                 | _ \<Rightarrow> raise_io e))
         (\<lambda>returned. case returned of
            Some resp \<Rightarrow> return_io resp
          | None \<Rightarrow> return_io (JsonResult \<lparr>success = True, error = None\<rparr>)))"

section \<open>Connecting a repository\<close>

text \<open>
  The body of \<^verbatim>\<open>post_snap_builds\<close>. \<open>form_github_repository\<close> is
  \<^verbatim>\<open>flask.request.form.get("github_repository")\<close>; calling \<^verbatim>\<open>split\<close> on \<^verbatim>\<open>None\<close> raises
  \<^verbatim>\<open>AttributeError\<close>.
\<close>

text \<open>
  \<^verbatim>\<open>try: repo_exist = launchpad.get_snap(lp_snap_name)\<close>, where a 404 gives
  \<^verbatim>\<open>repo_exist = False\<close> (here \<open>None\<close>).
\<close>

definition lookup_repo :: "env \<Rightarrow> string \<Rightarrow> lp_snap option result" where
  "lookup_repo env lp_snap_name =
     (case get_snap (lp env) lp_snap_name of
        Inl (HTTPError c) \<Rightarrow> if c = 404 then Inr None else Inl (HTTPError c)
      | Inl e \<Rightarrow> Inl e
      | Inr r \<Rightarrow> Inr r)"

text \<open>
  \<^verbatim>\<open>try: hook = github.get_hook_by_url(...); if not hook: github.create_hook(...)\<close>
  \<^verbatim>\<open>except HTTPError: flask.flash(...)\<close>
\<close>

definition ensure_hook :: "env \<Rightarrow> string \<Rightarrow> string \<Rightarrow> string \<Rightarrow> unit io" where
  "ensure_hook env owner repo github_hook_url =
     try_except
       (bind_io (read_io (get_hook_by_url (gh env) (github_auth_secret env)
                            owner repo github_hook_url)) (\<lambda>hook.
          if \<not> truthy hook
          then call_io (CreateHook owner repo github_hook_url)
                 (create_hook (gh env) (github_auth_secret env) owner repo github_hook_url)
          else return_io ()))
       (\<lambda>e. case e of
              HTTPError c \<Rightarrow>
                call_io (Flash (''The GitHub Webhook could not be created. ''
                                @ ''Please trigger a new build manually.'') ''caution'')
                  (Inr ())
            | _ \<Rightarrow> raise_io e)"

text \<open>The branch \<^verbatim>\<open>if not lp_snap:\<close>; \<open>Some resp\<close> is an early \<^verbatim>\<open>return\<close>.\<close>

definition register_repo ::
  "env \<Rightarrow> string \<Rightarrow> string \<Rightarrow> string \<Rightarrow> string \<Rightarrow> url \<Rightarrow> response option io" where
  "register_repo env snap_name owner repo git_url redirect_url =
     (let lp_snap_name = md5_hexdigest env git_url in
      bind_io (read_io (lookup_repo env lp_snap_name)) (\<lambda>repo_exist.
      bind_io
        (case repo_exist of
           None \<Rightarrow> return_io None
         | Some r \<Rightarrow>
             if \<not> truthy (store_name r)
             then bind_io (call_io (LaunchpadDelete (snap_self_link r))
                             (request_DELETE (lp env) (snap_self_link r)))
                    (\<lambda>_. return_io None)
             else bind_io
                    (call_io (Flash (''The specified repository is being used by another snap:''
                                     @ '' '' @ py_str (store_name r)) ''negative'') (Inr ()))
                    (\<lambda>_. return_io (Some (Redirect redirect_url)))) (\<lambda>returned.
      case returned of
        Some resp \<Rightarrow> return_io (Some resp)
      | None \<Rightarrow>
          bind_io (read_io (get_package_upload_macaroon (dashboard env) snap_name [''edge'']))
            (\<lambda>macaroon.
          bind_io (call_io (CreateSnap snap_name git_url macaroon)
                     (create_snap (lp env) snap_name git_url macaroon)) (\<lambda>_.
          bind_io (call_io (Flash ''The GitHub repository was linked correctly.'' ''positive'')
                     (Inr ())) (\<lambda>_.
          let github_hook_url = ''https://snapcraft.io/'' @ snap_name @ ''/webhook/notify'' in
          bind_io (ensure_hook env owner repo github_hook_url) (\<lambda>_.
          return_io None)))))))"

definition post_snap_builds :: "env \<Rightarrow> string \<Rightarrow> string option \<Rightarrow> response io" where
  "post_snap_builds env snap_name form_github_repository =
     bind_io (read_io (snap_details env snap_name)) (\<lambda>looked_up.
     case looked_up of
       Inl resp \<Rightarrow> return_io resp
     | Inr details \<Rightarrow>
     bind_io (read_io (get_account_snaps (dashboard env))) (\<lambda>account_snaps.
     if snap_name \<notin> set account_snaps then
       bind_io (call_io (Flash ''You do not have permissions to modify this Snap'' ''negative'')
                  (Inr ())) (\<lambda>_.
       return_io (Redirect (UrlFor ''.get_snap_builds'' snap_name)))
     else
     let redirect_url = UrlFor ''.get_snap_builds'' snap_name in
     bind_io (read_io (case form_github_repository of
                         None \<Rightarrow> Inl (AttributeError ''split'')
                       | Some s \<Rightarrow> unpack2 (split CHR ''/'' s))) (\<lambda>(owner, repo).
     bind_io (read_io (check_permissions_over_repo (gh env) (github_auth_secret env) owner repo))
       (\<lambda>permitted.
     if \<not> permitted then
       bind_io (call_io (Flash ''Your GitHub account doesn't have permissions in the repository''
                           ''negative'') (Inr ())) (\<lambda>_.
       return_io (Redirect redirect_url))
     else
     bind_io (read_io (validate_repo env (github_auth_secret env) (Some snap_name) owner repo))
       (\<lambda>repo_validation.
     if \<not> success repo_validation then
       bind_io (case error repo_validation of
                  None \<Rightarrow> raise_io (KeyError ''error'')
                | Some err \<Rightarrow> call_io (Flash (message err) ''negative'') (Inr ())) (\<lambda>_.
       return_io (Redirect redirect_url))
     else
     bind_io (read_io (get_snap_by_store_name (lp env) (details_snap_name details))) (\<lambda>lp_snap.
     let git_url = ''https://github.com/'' @ owner @ ''/'' @ repo in
     case lp_snap of
       None \<Rightarrow>
         bind_io (register_repo env snap_name owner repo git_url redirect_url) (\<lambda>returned.
         case returned of
           Some resp \<Rightarrow> return_io resp
         | None \<Rightarrow> return_io (Redirect redirect_url))
     | Some s \<Rightarrow>
         if git_repository_url s \<noteq> git_url then
           raise_io (AttributeError (''Snap '' @ snap_name
                       @ '' already has a build repository associated''))
         else return_io (Redirect redirect_url)))))))"

section \<open>The push webhook\<close>

text \<open>
  The entries of the push event that the handler reads:
  \<^verbatim>\<open>repository.html_url\<close>, \<^verbatim>\<open>repository.owner.login\<close>, \<^verbatim>\<open>repository.name\<close>,
  \<^verbatim>\<open>repository.default_branch\<close> and \<^verbatim>\<open>ref\<close>; with them the raw body
  \<^verbatim>\<open>flask.request.data\<close> and the header \<^verbatim>\<open>X-Hub-Signature\<close>. A push event of GitHub
  has all five entries, as strings; the handler reads them before anything else.
\<close>

record repository =
  html_url :: string
  owner_login :: string
  name :: string
  default_branch :: string

record push_event =
  repository :: repository
  ref :: string

record webhook_request =
  json :: push_event
  data :: string
  x_hub_signature :: "string option"

text \<open>
  \<^verbatim>\<open>if snap_name: lp_snap = launchpad.get_snap_by_store_name(snap_name)\<close>
  \<^verbatim>\<open>else: lp_snap = launchpad.get_snap(md5(repo_url.encode("UTF-8")).hexdigest())\<close>;
  \<open>snap_name\<close> is \<^verbatim>\<open>None\<close> when the route does not give it.
\<close>

definition webhook_snap :: "env \<Rightarrow> string option \<Rightarrow> string \<Rightarrow> lp_snap option result" where
  "webhook_snap env snap_name repo_url =
     (if truthy snap_name
      then (case snap_name of
              Some n \<Rightarrow> get_snap_by_store_name (lp env) n
            | None \<Rightarrow> get_snap (lp env) (md5_hexdigest env repo_url))
      else get_snap (lp env) (md5_hexdigest env repo_url))"

text \<open>
  The handler. Its last steps, \<^verbatim>\<open>is_snap_building\<close>, \<^verbatim>\<open>cancel_snap_builds\<close> and
  \<^verbatim>\<open>build_snap\<close> on the store name, are the steps of \<open>request_build\<close>. A lookup that
  gives \<^verbatim>\<open>None\<close> makes \<^verbatim>\<open>lp_snap["git_repository_url"]\<close> raise \<^verbatim>\<open>TypeError\<close>.
\<close>

definition post_github_webhook :: "env \<Rightarrow> string option \<Rightarrow> webhook_request \<Rightarrow> response io" where
  "post_github_webhook env snap_name request =
     (let repo_url = html_url (repository (json request));
          gh_owner = owner_login (repository (json request));
          gh_repo = name (repository (json request));
          gh_default_branch = default_branch (repository (json request));
          gh_event_branch = drop 11 (ref (json request))
      in
      if gh_default_branch \<noteq> gh_event_branch then
        return_io (Text ''The push event is not for the default branch'' 200)
      else
      bind_io (read_io (webhook_snap env snap_name repo_url)) (\<lambda>found.
      case found of
        None \<Rightarrow> raise_io TypeError
      | Some lp_snap \<Rightarrow>
      if git_repository_url lp_snap \<noteq> repo_url then
        return_io (Text ''The repository does not match the one used by this Snap'' 403)
      else
      bind_io (read_io (validate_webhook_signature (gh env) (data request)
                          (x_hub_signature request))) (\<lambda>valid.
      if \<not> valid then return_io (Text ''Invalid secret'' 403)
      else
      bind_io (read_io (validate_repo env (GITHUB_SNAPCRAFT_USER_TOKEN env)
                          (store_name lp_snap) gh_owner gh_repo)) (\<lambda>validation.
      if \<not> success validation then
        (case error validation of
           None \<Rightarrow> raise_io (KeyError ''error'')
         | Some err \<Rightarrow> return_io (Text (message err) 400))
      else
      bind_io (request_build env (store_name lp_snap)) (\<lambda>_.
      return_io (Text [] 204))))))"

section \<open>Reconciling the two states\<close>

text \<open>
  Modelled from the spec: the body of \<^verbatim>\<open>map_build_and_upload_states\<close>
  (\<^verbatim>\<open>webapp/publisher/snaps/builds.py\<close>) is not among the sources; the module only imports
  and calls it. The specification describes it as a pure function \<^verbatim>\<open>reconcile\<close> of the
  farm state and the optional upload state: a recognized pair yields the value found
  in a fixed lookup table, and anything unrecognized yields a designated default
  instead of raising. The table and the default are parameters, since the
  specification leaves the vocabulary to the remote service. Logging the anomaly is
  not modelled.
\<close>

type_synonym status_table = "((string \<times> string option) \<times> string) list"

definition reconcile ::
  "status_table \<Rightarrow> string \<Rightarrow> string \<Rightarrow> string option \<Rightarrow> string result" where
  "reconcile table default_status farmState uploadState =
     (case map_of table (farmState, uploadState) of
        Some st \<Rightarrow> Inr st
      | None \<Rightarrow> Inr default_status)"

text \<open>The known vocabulary: the farm states and the upload states that the table lists.\<close>

definition known_farm_states :: "status_table \<Rightarrow> string list" where
  "known_farm_states table = map (\<lambda>((f, u), st). f) table"

definition known_upload_states :: "status_table \<Rightarrow> string option list" where
  "known_upload_states table = map (\<lambda>((f, u), st). u) table"

section \<open>Properties stated by the specification\<close>

text \<open>The substring after the last \<open>/\<close> of a string; the whole string when it has none.\<close>

definition after_last_slash :: "string \<Rightarrow> string" where
  "after_last_slash s = rev (takeWhile (\<lambda>c. c \<noteq> CHR ''/'') (rev s))"

text \<open>
  The ref of a push without its prefix: \<^verbatim>\<open>refs/heads/\<close> before the name of a branch,
  \<^verbatim>\<open>refs/tags/\<close> before the name of a tag. What follows \<^verbatim>\<open>refs/\<close> up to the next slash is
  the kind of the ref, and the rest is the name.
\<close>

definition strip_refs_prefix :: "string \<Rightarrow> string" where
  "strip_refs_prefix r =
     (if take 5 r = ''refs/''
      then drop 1 (dropWhile (\<lambda>c. c \<noteq> CHR ''/'') (drop 5 r))
      else r)"

text \<open>An effect that creates a build-farm record or a webhook.\<close>

fun creates :: "effect \<Rightarrow> bool" where
  "creates (CreateSnap _ _ _) = True"
| "creates (CreateHook _ _ _) = True"
| "creates _ = False"

section \<open>A concrete environment\<close>

text \<open>
  A build farm that knows one snap \<open>hello\<close>, linked to the repository
  \<^verbatim>\<open>https://github.com/canonical/hello\<close>, whose builds are the given list; a repository
  whose \<^verbatim>\<open>snapcraft.yaml\<close> declares the given name; a publisher who owns \<open>hello\<close>.
\<close>

definition a_build :: "string \<Rightarrow> string \<Rightarrow> lp_build" where
  "a_build state link = \<lparr>
     buildstate = state,
     store_upload_status = None,
     self_link = link,
     arch_tag = ''amd64'',
     datebuilt = None,
     duration = None,
     build_log_url = None,
     revision_id = None,
     title = ''amd64 build of hello''\<rparr>"

definition hello_snap :: lp_snap where
  "hello_snap = \<lparr>
     store_name = Some ''hello'',
     git_repository_url = ''https://github.com/canonical/hello'',
     snap_self_link = ''https://api.launchpad.net/devel/~build.snapcraft.io/+snap/abc''\<rparr>"

definition a_launchpad :: "lp_build list \<Rightarrow> launchpad" where
  "a_launchpad builds = \<lparr>
     get_snap_builds = (\<lambda>_. Inr builds),
     get_builders_status = Inr [(''amd64'', \<lparr>estimated_duration = Some ''0:05:00''\<rparr>)],
     get_snap_by_store_name = (\<lambda>n. Inr (if n = ''hello'' then Some hello_snap else None)),
     get_snap = (\<lambda>_. Inr (Some hello_snap)),
     get_snap_build = (\<lambda>_ _. Inr (case builds of [] \<Rightarrow> None | b # _ \<Rightarrow> Some b)),
     get_snap_build_log = (\<lambda>_ _. Inr ''log''),
     request_DELETE = (\<lambda>_. Inr ()),
     create_snap = (\<lambda>_ _ _. Inr ()),
     is_snap_building = (\<lambda>_. Inr False),
     cancel_snap_builds = (\<lambda>_. Inr ()),
     build_snap = (\<lambda>_. Inr ())\<rparr>"

definition a_github :: "string result \<Rightarrow> bool \<Rightarrow> github" where
  "a_github yaml_name signature_ok = \<lparr>
     get_snapcraft_yaml_location = (\<lambda>_ _ _. Inr (Some ''snap/snapcraft.yaml'')),
     get_snapcraft_yaml_name = (\<lambda>_ _ _. yaml_name),
     check_permissions_over_repo = (\<lambda>_ _ _. Inr True),
     get_hook_by_url = (\<lambda>_ _ _ _. Inr None),
     create_hook = (\<lambda>_ _ _ _. Inr ()),
     validate_webhook_signature = (\<lambda>_ _. Inr signature_ok)\<rparr>"

definition a_dashboard :: api where
  "a_dashboard = \<lparr>
     get_snap_info = (\<lambda>n. Inr \<lparr>details_snap_id = ''id-'' @ n, details_snap_name = n,
                                 details_title = n\<rparr>),
     get_account_snaps = Inr [''hello''],
     get_package_upload_macaroon = (\<lambda>_ _. Inr ''macaroon'')\<rparr>"

definition an_env :: "launchpad \<Rightarrow> github \<Rightarrow> env" where
  "an_env l g = \<lparr>
     lp = l,
     gh = g,
     dashboard = a_dashboard,
     map_build_and_upload_states = (\<lambda>b u. Inr b),
     md5_hexdigest = (\<lambda>s. ''abc''),
     GITHUB_SNAPCRAFT_USER_TOKEN = Some ''token'',
     github_auth_secret = Some ''secret''\<rparr>"

definition a_push :: "string \<Rightarrow> webhook_request" where
  "a_push r = \<lparr>
     json = \<lparr>
       repository = \<lparr>
         html_url = ''https://github.com/canonical/hello'',
         owner_login = ''canonical'',
         name = ''hello'',
         default_branch = ''main''\<rparr>,
       ref = r\<rparr>,
     data = ''{}'',
     x_hub_signature = Some ''sha1=00''\<rparr>"

text \<open>Two builds of \<open>hello\<close>, the environment over a list of builds, and a listed record.\<close>

definition two_builds :: "lp_build list" where
  "two_builds =
     [a_build ''Successfully built'' ''https://api.launchpad.net/devel/~me/+snap/abc/+build/7'',
      a_build ''Needs building'' ''https://api.launchpad.net/devel/~me/+snap/abc/+build/8'']"

definition four_builds :: "lp_build list" where
  "four_builds =
     [a_build ''Successfully built'' ''https://api.launchpad.net/devel/~me/+snap/abc/+build/4'',
      a_build ''Successfully built'' ''https://api.launchpad.net/devel/~me/+snap/abc/+build/3'',
      a_build ''Successfully built'' ''https://api.launchpad.net/devel/~me/+snap/abc/+build/2'',
      a_build ''Successfully built'' ''https://api.launchpad.net/devel/~me/+snap/abc/+build/1'']"

definition hello_env :: "lp_build list \<Rightarrow> env" where
  "hello_env builds = an_env (a_launchpad builds) (a_github (Inr ''hello'') True)"

definition a_record :: "string \<Rightarrow> string \<Rightarrow> string option \<Rightarrow> snap_build_queued" where
  "a_record ident st q = \<lparr>
     build_id = ident,
     arch_tag = ''amd64'',
     datebuilt = None,
     duration = None,
     logs = None,
     revision_id = None,
     status = st,
     title = ''amd64 build of hello'',
     queue_time = q\<rparr>"

definition a_view :: "string \<Rightarrow> string \<Rightarrow> snap_build" where
  "a_view ident st = \<lparr>
     build_id = ident,
     arch_tag = ''amd64'',
     datebuilt = None,
     duration = None,
     logs = None,
     revision_id = None,
     status = st,
     title = ''amd64 build of hello''\<rparr>"

definition hello_page :: build_page where
  "hello_page = \<lparr>
     page_snap_id = ''id-hello'',
     page_snap_name = ''hello'',
     page_snap_title = ''hello'',
     page_snap_build = Some (a_view ''7'' ''Successfully built''),
     raw_logs = None\<rparr>"

section \<open>Lemmas on splitting\<close>

lemma split_not_Nil: "split sep s \<noteq> []"
  by (induction s) (auto split: list.splits)

lemma split_no_sep: "sep \<notin> set s \<Longrightarrow> split sep s = [s]"
  by (induction s) auto

lemma length_split: "length (split sep s) = Suc (length (filter (\<lambda>c. c = sep) s))"
  by (induction s) (auto split: list.splits)

lemma split_sep_tail:
  assumes "sep \<in> set s" and "split sep s = w # ws"
  shows "ws \<noteq> []"
proof -
  have "filter (\<lambda>c. c = sep) s \<noteq> []"
    using assms(1) by (simp add: filter_empty_conv)
  then have "length (split sep s) \<ge> 2"
    by (cases "filter (\<lambda>c. c = sep) s") (simp_all add: length_split)
  then show ?thesis using assms(2) by auto
qed

lemma takeWhile_no_sep:
  "sep \<notin> set s \<Longrightarrow> rev (takeWhile (\<lambda>c. c \<noteq> sep) (rev s)) = s"
proof -
  assume "sep \<notin> set s"
  then have "\<forall>x\<in>set (rev s). x \<noteq> sep" by auto
  then have "takeWhile (\<lambda>c. c \<noteq> sep) (rev s) = rev s"
    by (rule takeWhile_eq_all_conv[THEN iffD2])
  then show ?thesis by (simp only: rev_rev_ident)
qed

text \<open>The last piece of a split is what follows the last separator.\<close>

lemma last_split: "last (split sep s) = rev (takeWhile (\<lambda>c. c \<noteq> sep) (rev s))"
proof (induction s)
  case Nil
  then show ?case by simp
next
  case (Cons c cs)
  show ?case
  proof (cases "c = sep")
    case True
    then show ?thesis using Cons split_not_Nil[of sep cs]
      by (simp add: takeWhile_append)
  next
    case False
    obtain w ws where sp: "split sep cs = w # ws"
      using split_not_Nil[of sep cs] by (cases "split sep cs") auto
    show ?thesis
    proof (cases "sep \<in> set cs")
      case True
      then have ws: "ws \<noteq> []" using sp split_sep_tail by blast
      have "takeWhile (\<lambda>c. c \<noteq> sep) (rev cs @ [c]) = takeWhile (\<lambda>c. c \<noteq> sep) (rev cs)"
        using True by (auto simp add: takeWhile_append)
      then show ?thesis using Cons sp ws False by simp
    next
      case F2: False
      then have ns: "sep \<notin> set (c # cs)" using False by simp
      have "last (split sep (c # cs)) = c # cs"
        unfolding split_no_sep[OF ns] by simp
      then show ?thesis by (simp only: takeWhile_no_sep[OF ns])
    qed
  qed
qed

text \<open>
  \<open>after_last_slash\<close> is a suffix without a slash, and what precedes it is empty or ends
  with a slash.
\<close>

lemma after_last_slash_segment:
  "CHR ''/'' \<notin> set (after_last_slash s) \<and>
   (\<exists>p. s = p @ after_last_slash s \<and> (p = [] \<or> last p = CHR ''/''))"
proof -
  let ?P = "\<lambda>c. c \<noteq> CHR ''/''"
  let ?p = "rev (dropWhile ?P (rev s))"
  have no: "CHR ''/'' \<notin> set (after_last_slash s)"
    using set_takeWhileD[of "CHR ''/''" ?P "rev s"] by (auto simp: after_last_slash_def)
  have "rev (takeWhile ?P (rev s) @ dropWhile ?P (rev s)) = s"
    by (simp only: takeWhile_dropWhile_id rev_rev_ident)
  then have eq: "s = ?p @ after_last_slash s"
    by (simp only: rev_append after_last_slash_def)
  have "?p = [] \<or> last ?p = CHR ''/''"
  proof (cases "dropWhile ?P (rev s)")
    case Nil
    then show ?thesis by simp
  next
    case (Cons a as)
    then have "\<not> ?P (hd (dropWhile ?P (rev s)))" using hd_dropWhile[of ?P "rev s"] by simp
    then show ?thesis using Cons by (simp add: last_rev)
  qed
  with no eq show ?thesis by blast
qed

text \<open>\<^verbatim>\<open>link.split("/")[-1]\<close> never raises and is the part after the last slash.\<close>

lemma self_link_id_eq: "self_link_id link = Inr (after_last_slash link)"
proof -
  have "rev (split CHR ''/'' link) \<noteq> []" by (simp add: split_not_Nil)
  then obtain x xs where r: "rev (split CHR ''/'' link) = x # xs"
    by (cases "rev (split CHR ''/'' link)") auto
  then have "last (split CHR ''/'' link) = x"
    by (metis last_rev list.sel(1) rev_rev_ident hd_rev)
  then show ?thesis using r
    by (simp add: self_link_id_def getitem_last_def after_last_slash_def last_split)
qed

section \<open>The loop of \<^verbatim>\<open>get_builds\<close>\<close>

text \<open>
  When the loop returns, it has appended one record per build, in order. Each record
  has the identifier of its build, and its queue time is the farm's estimate for the
  build's architecture when the build state is \<^verbatim>\<open>"Needs building"\<close>, \<^verbatim>\<open>None\<close> otherwise.
  The invariant on \<open>builders_status\<close>: once it holds a non-empty dict, that dict is the
  farm's answer.
\<close>

lemma get_builds_loop_records:
  assumes "get_builds_loop env builds bs acc = Inr out"
    and "\<forall>d. bs = Some d \<longrightarrow> d = [] \<or> get_builders_status (lp env) = Inr d"
  shows "\<exists>new. out = acc @ new \<and>
           list_all2 (\<lambda>build r.
              build_id r = after_last_slash (self_link build) \<and>
              (if buildstate build = ''Needs building''
               then \<exists>d b. get_builders_status (lp env) = Inr d \<and>
                          map_of d (lp_build.arch_tag build) = Some b \<and>
                          queue_time r = estimated_duration b
               else queue_time r = None)) builds new"
  using assms
proof (induction builds arbitrary: bs acc)
  case Nil
  then show ?case by simp
next
  case (Cons build builds)
  obtain st where
    st: "map_build_and_upload_states env (buildstate build) (store_upload_status build) = Inr st"
    using Cons.prems(1)
    by (cases "map_build_and_upload_states env (buildstate build) (store_upload_status build)")
       auto
  let ?r = "\<lparr>build_id = after_last_slash (self_link build),
              arch_tag = lp_build.arch_tag build,
              datebuilt = lp_build.datebuilt build,
              duration = lp_build.duration build,
              logs = build_log_url build,
              revision_id = lp_build.revision_id build,
              status = st,
              title = lp_build.title build,
              queue_time = None \<rparr>"
  show ?case
  proof (cases "buildstate build = ''Needs building''")
    case False
    then have "get_builds_loop env builds bs (acc @ [?r]) = Inr out"
      using Cons.prems(1) st by (simp add: self_link_id_eq)
    from Cons.IH[OF this Cons.prems(2)] obtain new where
      "out = (acc @ [?r]) @ new" and "list_all2 (\<lambda>build r.
              build_id r = after_last_slash (self_link build) \<and>
              (if buildstate build = ''Needs building''
               then \<exists>d b. get_builders_status (lp env) = Inr d \<and>
                          map_of d (lp_build.arch_tag build) = Some b \<and>
                          queue_time r = estimated_duration b
               else queue_time r = None)) builds new" by blast
    then show ?thesis using False by (intro exI[of _ "?r # new"]) simp
  next
    case True
    define fetched where "fetched = (case bs of
                   None \<Rightarrow> get_builders_status (lp env)
                 | Some [] \<Rightarrow> get_builders_status (lp env)
                 | Some d \<Rightarrow> Inr d)"
    have fe: "fetched = get_builders_status (lp env)"
      using Cons.prems(2) by (auto simp: fetched_def split: option.splits list.splits)
    have run: "(case fetched of
             Inl e \<Rightarrow> Inl e
           | Inr d \<Rightarrow>
               (case map_of d (lp_build.arch_tag build) of
                  None \<Rightarrow> Inl (KeyError (lp_build.arch_tag build))
                | Some b \<Rightarrow>
                    get_builds_loop env builds (Some d)
                      (acc @ [?r\<lparr>queue_time := estimated_duration b\<rparr>]))) = Inr out"
      using Cons.prems(1) st True by (simp add: self_link_id_eq fetched_def)
    then obtain d where d: "fetched = Inr d" by (cases fetched) auto
    then obtain b where b: "map_of d (lp_build.arch_tag build) = Some b"
      using run by (cases "map_of d (lp_build.arch_tag build)") auto
    have rec: "get_builds_loop env builds (Some d)
                 (acc @ [?r\<lparr>queue_time := estimated_duration b\<rparr>]) = Inr out"
      using run d b by simp
    have inv: "\<forall>d'. Some d = Some d' \<longrightarrow> d' = [] \<or> get_builders_status (lp env) = Inr d'"
      using d fe by simp
    from Cons.IH[OF rec inv] obtain new where
      "out = (acc @ [?r\<lparr>queue_time := estimated_duration b\<rparr>]) @ new" and "list_all2 (\<lambda>build r.
              build_id r = after_last_slash (self_link build) \<and>
              (if buildstate build = ''Needs building''
               then \<exists>d b. get_builders_status (lp env) = Inr d \<and>
                          map_of d (lp_build.arch_tag build) = Some b \<and>
                          queue_time r = estimated_duration b
               else queue_time r = None)) builds new" by blast
    then show ?thesis using True d b fe
      by (intro exI[of _ "?r\<lparr>queue_time := estimated_duration b\<rparr> # new"]) simp
  qed
qed

lemma get_builds_Inr:
  assumes "get_builds env lp_snap selection = Inr c"
  shows "\<exists>builds. get_snap_builds (lp env) (store_name lp_snap) = Inr builds \<and>
           total_builds c = length builds \<and>
           get_builds_loop env (getitem_slice builds selection) None [] = Inr (snap_builds c)"
  using assms
  by (auto simp: get_builds_def Let_def split: sum.splits)

text \<open>The listing of the two builds of \<open>hello\<close>, first page and a page of one.\<close>

lemma get_builds_two_builds:
  "get_builds (hello_env two_builds) hello_snap (Slice 0 15) =
     Inr \<lparr>total_builds = 2,
          snap_builds = [a_record ''7'' ''Successfully built'' None,
                         a_record ''8'' ''Needs building'' (Some ''0:05:00'')]\<rparr>"
  by (simp add: get_builds_def hello_env_def two_builds_def a_record_def an_env_def
      a_launchpad_def a_build_def hello_snap_def adjust_index_def self_link_id_def
      getitem_last_def)

lemma get_builds_page_of_one:
  "get_builds (hello_env two_builds) hello_snap (Slice 1 2) =
     Inr \<lparr>total_builds = 2,
          snap_builds = [a_record ''8'' ''Needs building'' (Some ''0:05:00'')]\<rparr>"
  by (simp add: get_builds_def hello_env_def two_builds_def a_record_def an_env_def
      a_launchpad_def a_build_def hello_snap_def adjust_index_def self_link_id_def
      getitem_last_def)

lemma get_snap_builds_two_builds:
  "get_snap_builds (lp (hello_env two_builds)) (store_name hello_snap) = Inr two_builds"
  by (simp add: hello_env_def an_env_def a_launchpad_def)

section \<open>Lemmas on the view functions\<close>

lemmas io_defs = run_def return_io_def raise_io_def bind_io_def read_io_def call_io_def
  try_except_def

text \<open>A slice with bounds that are not negative is \<^verbatim>\<open>xs[start:stop]\<close> by \<open>take\<close> and \<open>drop\<close>.\<close>

lemma getitem_slice_nonneg:
  assumes "0 \<le> start" and "0 \<le> stop"
  shows "getitem_slice xs (Slice start stop) = drop (nat start) (take (nat stop) xs)"
proof -
  have "take (nat (min stop (int (length xs)) - min start (int (length xs))))
          (drop (nat (min start (int (length xs)))) xs) =
        take (nat stop - nat start) (drop (nat start) xs)"
  proof (cases "start \<le> int (length xs)")
    case True
    then have s: "min start (int (length xs)) = start" by simp
    show ?thesis
    proof (cases "stop \<le> int (length xs)")
      case True
      moreover have "nat (stop - start) = nat stop - nat start" using assms by arith
      ultimately show ?thesis using s by simp
    next
      case False
      then have "length (drop (nat start) xs) \<le> nat stop - nat start"
        and "length (drop (nat start) xs) \<le> nat (int (length xs) - start)"
        using assms True by auto
      then show ?thesis using s False by (simp add: min_def)
    qed
  next
    case False
    then show ?thesis using assms by simp
  qed
  then show ?thesis using assms
    by (simp add: adjust_index_def Let_def drop_take)
qed

text \<open>The page of one build: what \<^verbatim>\<open>get_snap_build\<close> renders comes from the farm's entry.\<close>

lemma get_snap_build_Inr:
  assumes "get_snap_build env snap_name build_no = Inr (RenderBuild page)"
    and "page_snap_build page = Some v"
  shows "\<exists>details b. get_snap_info (dashboard env) snap_name = Inr details \<and>
           launchpad.get_snap_build (lp env) (details_snap_name details) build_no = Inr (Some b) \<and>
           build_id v = after_last_slash (self_link b)"
  using assms
  by (auto simp: get_snap_build_def snap_details_def Let_def self_link_id_eq
      split: sum.splits option.splits py_exc.splits if_splits)

lemma get_snap_build_hello2:
  "get_snap_build (hello_env two_builds) ''hello'' ''7'' = Inr (RenderBuild hello_page)"
  by (simp add: get_snap_build_def snap_details_def hello_env_def two_builds_def a_view_def an_env_def
      a_launchpad_def a_dashboard_def a_build_def hello_snap_def self_link_id_def truthy_def
      getitem_last_def hello_page_def)

text \<open>
  What the JSON endpoint lists: the builds of the slice from \<open>start\<close> to \<open>size\<close>, the
  second bound being an index, not a count.
\<close>

lemma get_snap_builds_json_builds:
  assumes "get_snap_builds_json env snap_name arg_start arg_size = Inr (JsonBuilds j)"
      and "get_snap_info (dashboard env) snap_name = Inr details"
      and "get_snap_by_store_name (lp env) (details_snap_name details) = Inr (Some lp_snap)"
      and "get_snap_builds (lp env) (store_name lp_snap) = Inr builds"
  shows "list_all2 (\<lambda>build r. build_id r = after_last_slash (self_link build))
           (getitem_slice builds
              (Slice (case arg_start of None \<Rightarrow> 0 | Some i \<Rightarrow> i)
                     (case arg_size of None \<Rightarrow> 15 | Some i \<Rightarrow> i)))
           (json_snap_builds j)"
proof -
  let ?sl = "Slice (case arg_start of None \<Rightarrow> 0 | Some i \<Rightarrow> i)
                     (case arg_size of None \<Rightarrow> 15 | Some i \<Rightarrow> i)"
  from assms obtain c where c: "get_builds env lp_snap ?sl = Inr c"
    and j: "json_snap_builds j = snap_builds c"
    by (auto simp: get_snap_builds_json_def snap_details_def Let_def split: sum.splits)
  from get_builds_Inr[OF c] assms(4)
  have loop: "get_builds_loop env (getitem_slice builds ?sl) None [] = Inr (snap_builds c)"
    by auto
  from get_builds_loop_records[OF loop]
  have "list_all2 (\<lambda>build r.
              build_id r = after_last_slash (self_link build) \<and>
              (if buildstate build = ''Needs building''
               then \<exists>d b. get_builders_status (lp env) = Inr d \<and>
                          map_of d (lp_build.arch_tag build) = Some b \<and>
                          queue_time r = estimated_duration b
               else queue_time r = None)) (getitem_slice builds ?sl) (snap_builds c)"
    by simp
  then show ?thesis unfolding j by (rule list_all2_mono) simp
qed

lemma get_snap_builds_json_first_page:
  "get_snap_builds_json (hello_env four_builds) ''hello'' (Some 0) (Some 2) =
     Inr (JsonBuilds \<lparr>json_total_builds = Some 4, json_snap_builds = 
       [a_record ''4'' ''Successfully built'' None, a_record ''3'' ''Successfully built'' None]\<rparr>)"
  by (simp add: get_snap_builds_json_def snap_details_def get_builds_def hello_env_def four_builds_def a_record_def an_env_def
      a_launchpad_def a_dashboard_def a_build_def hello_snap_def adjust_index_def self_link_id_def
      getitem_last_def)

text \<open>A mismatch of names is reported as such.\<close>

lemma validate_repo_mismatch:
  assumes "get_snapcraft_yaml_location (gh env) token owner repo = Inr loc"
    and "truthy loc"
    and "get_snapcraft_yaml_name (gh env) token owner repo = Inr declared"
    and "Some declared \<noteq> snap_name"
  shows "\<exists>e. validate_repo env token snap_name owner repo = Inr \<lparr>success = False, error = Some e\<rparr> \<and>
           error_type e = ''SNAP_NAME_DOES_NOT_MATCH'' \<and> gh_snap_name e = Some declared"
  using assms by (simp add: validate_repo_def)

text \<open>
  The branch guard of the webhook: when the ref without its first eleven characters
  is not the default branch, the handler answers 200 and calls nothing. For the ref
  of a branch, \<^verbatim>\<open>refs/heads/\<close> and its name, those eleven characters are the prefix, so
  a push to a branch other than the default one is ignored.
\<close>

lemma strip_refs_heads: "strip_refs_prefix (''refs/heads/'' @ b) = b"
  by (simp add: strip_refs_prefix_def)

lemma strip_refs_tags: "strip_refs_prefix (''refs/tags/'' @ t) = t"
  by (simp add: strip_refs_prefix_def)

lemma post_github_webhook_guard:
  "default_branch (repository (json request)) \<noteq> drop 11 (ref (json request)) \<Longrightarrow>
   run (post_github_webhook env snap_name request) =
     (Inr (Text ''The push event is not for the default branch'' 200), [])"
  by (simp add: post_github_webhook_def io_defs Let_def)

lemma post_github_webhook_branch_push:
  assumes "ref (json request) = ''refs/heads/'' @ branch"
    and "branch \<noteq> default_branch (repository (json request))"
  shows "run (post_github_webhook env snap_name request) =
     (Inr (Text ''The push event is not for the default branch'' 200), [])"
proof -
  have "drop 11 (ref (json request)) = branch" using assms(1) by simp
  with assms(2) show ?thesis by (intro post_github_webhook_guard) auto
qed

lemma push_feature_ignored:
  "run (post_github_webhook (hello_env two_builds) (Some ''hello'')
          (a_push ''refs/heads/feature'')) =
     (Inr (Text ''The push event is not for the default branch'' 200), [])"
  by (rule post_github_webhook_branch_push[where branch = "''feature''"])
     (simp_all add: a_push_def)

text \<open>
  The handlers do reach their writes: a push to the default branch with a valid
  signature requests a build, and connecting a matching repository creates the
  build-farm record and the webhook.
\<close>

lemma push_main_builds:
  "run (post_github_webhook (hello_env two_builds) (Some ''hello'') (a_push ''refs/heads/main'')) =
     (Inr (Text [] 204), [BuildSnap (Some ''hello'')])"
  by (simp add: post_github_webhook_def io_defs Let_def hello_env_def an_env_def a_launchpad_def
      a_github_def a_push_def hello_snap_def webhook_snap_def truthy_def validate_repo_def request_build_def)

lemma connect_hello:
  "run (post_snap_builds (an_env ((a_launchpad [])\<lparr>get_snap_by_store_name := (\<lambda>_. Inr None), get_snap := (\<lambda>_. Inl (HTTPError 404))\<rparr>) (a_github (Inr ''hello'') True)) ''hello'' (Some ''canonical/hello'')) =
     (Inr (Redirect (UrlFor ''.get_snap_builds'' ''hello'')),
      [CreateSnap ''hello'' ''https://github.com/canonical/hello'' ''macaroon'',
       Flash ''The GitHub repository was linked correctly.'' ''positive'',
       CreateHook ''canonical'' ''hello'' ''https://snapcraft.io/hello/webhook/notify''])"
  by (simp add: post_snap_builds_def snap_details_def io_defs an_env_def a_launchpad_def
      a_github_def a_dashboard_def validate_repo_def truthy_def unpack2_def register_repo_def
      lookup_repo_def ensure_hook_def)

section \<open>The claims\<close>

text \<open>
  C10. For every build list and every selection slice, the \<^verbatim>\<open>total_builds\<close> value that
  \<^verbatim>\<open>get_builds\<close> returns is the length of the full, unsliced list fetched from the build
  farm, whatever page the slice selects.
\<close>

theorem get_builds_total_builds:
  "get_snap_builds (lp env) (store_name lp_snap) = Inr builds \<Longrightarrow>
   get_builds env lp_snap selection = Inr c \<Longrightarrow>
   total_builds c = length builds"
  using get_builds_Inr by fastforce

text \<open>The second page of one build still reports both builds.\<close>

theorem get_builds_total_builds_witness:
  "get_builds (hello_env two_builds) hello_snap (Slice 1 2) =
     Inr \<lparr>total_builds = 2,
          snap_builds = [a_record ''8'' ''Needs building'' (Some ''0:05:00'')]\<rparr> \<and>
   total_builds \<lparr>total_builds = 2,
          snap_builds = [a_record ''8'' ''Needs building'' (Some ''0:05:00'')]\<rparr>
     = length two_builds"
  using get_builds_total_builds[OF get_snap_builds_two_builds get_builds_page_of_one]
    get_builds_page_of_one
  by simp

text \<open>
  C4, as amended. For every record that \<^verbatim>\<open>get_builds\<close> produces: when the state of its
  build is not the string \<^verbatim>\<open>"Needs building"\<close>, the record's \<^verbatim>\<open>queue_time\<close> is \<^verbatim>\<open>None\<close>;
  when it is \<^verbatim>\<open>"Needs building"\<close>, the \<^verbatim>\<open>queue_time\<close> is the \<^verbatim>\<open>estimated_duration\<close> that
  \<^verbatim>\<open>launchpad.get_builders_status()\<close> reports for the build's architecture.
\<close>

theorem get_builds_queue_time:
  assumes "get_snap_builds (lp env) (store_name lp_snap) = Inr builds"
    and "get_builds env lp_snap selection = Inr c"
  shows "list_all2 (\<lambda>build r.
           if buildstate build = ''Needs building''
           then \<exists>d b. get_builders_status (lp env) = Inr d \<and>
                      map_of d (lp_build.arch_tag build) = Some b \<and>
                      queue_time r = estimated_duration b
           else queue_time r = None)
         (getitem_slice builds selection) (snap_builds c)"
proof -
  from get_builds_Inr[OF assms(2)] assms(1)
  have loop: "get_builds_loop env (getitem_slice builds selection) None [] = Inr (snap_builds c)"
    by auto
  from get_builds_loop_records[OF loop]
  have "list_all2 (\<lambda>build r.
              build_id r = after_last_slash (self_link build) \<and>
              (if buildstate build = ''Needs building''
               then \<exists>d b. get_builders_status (lp env) = Inr d \<and>
                          map_of d (lp_build.arch_tag build) = Some b \<and>
                          queue_time r = estimated_duration b
               else queue_time r = None)) (getitem_slice builds selection) (snap_builds c)"
    by simp
  then show ?thesis by (rule list_all2_mono) (auto split: if_splits)
qed

text \<open>
  On the two builds of \<open>hello\<close>: the built one has no queue time, the one that needs
  building has the estimate for \<open>amd64\<close>.
\<close>

theorem get_builds_queue_time_witness:
  "get_builds (hello_env two_builds) hello_snap (Slice 0 15) =
     Inr \<lparr>total_builds = 2,
          snap_builds = [a_record ''7'' ''Successfully built'' None,
                         a_record ''8'' ''Needs building'' (Some ''0:05:00'')]\<rparr> \<and>
   list_all2 (\<lambda>build r.
           if buildstate build = ''Needs building''
           then \<exists>d b. get_builders_status (lp (hello_env two_builds)) = Inr d \<and>
                      map_of d (lp_build.arch_tag build) = Some b \<and>
                      queue_time r = estimated_duration b
           else queue_time r = None)
     (getitem_slice two_builds (Slice 0 15))
     [a_record ''7'' ''Successfully built'' None,
      a_record ''8'' ''Needs building'' (Some ''0:05:00'')]"
  using get_builds_queue_time[OF get_snap_builds_two_builds get_builds_two_builds]
    get_builds_two_builds
  by simp

text \<open>
  C4 as the specification words it fails: a build whose state is the string
  \<^verbatim>\<open>"needs-building"\<close> gets no queue time, since the code compares the state with
  \<^verbatim>\<open>"Needs building"\<close>.
\<close>

theorem get_builds_queue_time_counterexample:
  "get_builds
     (hello_env [a_build ''needs-building''
                   ''https://api.launchpad.net/devel/~me/+snap/abc/+build/9''])
     hello_snap (Slice 0 15) =
   Inr \<lparr>total_builds = 1, snap_builds = [a_record ''9'' ''needs-building'' None]\<rparr>"
  by (simp add: get_builds_def hello_env_def a_record_def an_env_def
      a_launchpad_def a_build_def hello_snap_def adjust_index_def self_link_id_def
      getitem_last_def)

text \<open>
  C8. For every build record handed to the presentation layer, by \<^verbatim>\<open>get_builds\<close> and by
  \<^verbatim>\<open>get_snap_build\<close>, the record's \<^verbatim>\<open>id\<close> is the trailing path segment of the
  \<^verbatim>\<open>self_link\<close> of the farm's build entry: the substring after the last \<open>/\<close>.
\<close>

theorem build_id_trailing_segment:
  "(get_snap_builds (lp env) (store_name lp_snap) = Inr builds \<and>
    get_builds env lp_snap selection = Inr c \<longrightarrow>
      list_all2 (\<lambda>build r. build_id r = after_last_slash (self_link build))
        (getitem_slice builds selection) (snap_builds c)) \<and>
   (get_snap_build env snap_name build_no = Inr (RenderBuild page) \<and>
    page_snap_build page = Some v \<longrightarrow>
      (\<exists>details b. get_snap_info (dashboard env) snap_name = Inr details \<and>
         launchpad.get_snap_build (lp env) (details_snap_name details) build_no = Inr (Some b) \<and>
         build_id v = after_last_slash (self_link b)))"
proof (intro conjI impI)
  assume a: "get_snap_builds (lp env) (store_name lp_snap) = Inr builds \<and>
    get_builds env lp_snap selection = Inr c"
  from get_builds_Inr[of env lp_snap selection c] a
  have loop: "get_builds_loop env (getitem_slice builds selection) None [] = Inr (snap_builds c)"
    by auto
  from get_builds_loop_records[OF loop]
  have "list_all2 (\<lambda>build r.
              build_id r = after_last_slash (self_link build) \<and>
              (if buildstate build = ''Needs building''
               then \<exists>d b. get_builders_status (lp env) = Inr d \<and>
                          map_of d (lp_build.arch_tag build) = Some b \<and>
                          queue_time r = estimated_duration b
               else queue_time r = None)) (getitem_slice builds selection) (snap_builds c)"
    by simp
  then show "list_all2 (\<lambda>build r. build_id r = after_last_slash (self_link build))
        (getitem_slice builds selection) (snap_builds c)"
    by (rule list_all2_mono) simp
next
  assume "get_snap_build env snap_name build_no = Inr (RenderBuild page) \<and>
    page_snap_build page = Some v"
  then show "\<exists>details b. get_snap_info (dashboard env) snap_name = Inr details \<and>
         launchpad.get_snap_build (lp env) (details_snap_name details) build_no = Inr (Some b) \<and>
         build_id v = after_last_slash (self_link b)"
    using get_snap_build_Inr by blast
qed

text \<open>Builds 7 and 8 of \<open>hello\<close>, listed and on the page of build 7.\<close>

theorem build_id_trailing_segment_witness:
  "get_builds (hello_env two_builds) hello_snap (Slice 0 15) =
     Inr \<lparr>total_builds = 2,
          snap_builds = [a_record ''7'' ''Successfully built'' None,
                         a_record ''8'' ''Needs building'' (Some ''0:05:00'')]\<rparr> \<and>
   list_all2 (\<lambda>build r. build_id r = after_last_slash (self_link build))
     (getitem_slice two_builds (Slice 0 15))
     [a_record ''7'' ''Successfully built'' None,
      a_record ''8'' ''Needs building'' (Some ''0:05:00'')] \<and>
   get_snap_build (hello_env two_builds) ''hello'' ''7'' = Inr (RenderBuild hello_page) \<and>
   page_snap_build hello_page = Some (a_view ''7'' ''Successfully built'') \<and>
   (\<exists>details b. get_snap_info (dashboard (hello_env two_builds)) ''hello'' = Inr details \<and>
      launchpad.get_snap_build (lp (hello_env two_builds)) (details_snap_name details) ''7''
        = Inr (Some b) \<and>
      build_id (a_view ''7'' ''Successfully built'') = after_last_slash (self_link b))"
proof -
  have p: "page_snap_build hello_page = Some (a_view ''7'' ''Successfully built'')"
    by (simp add: hello_page_def)
  show ?thesis
    using build_id_trailing_segment[of "hello_env two_builds" hello_snap two_builds "Slice 0 15"
        "\<lparr>total_builds = 2,
          snap_builds = [a_record ''7'' ''Successfully built'' None,
                         a_record ''8'' ''Needs building'' (Some ''0:05:00'')]\<rparr>"
        "''hello''" "''7''" hello_page "a_view ''7'' ''Successfully built''"]
      get_snap_builds_two_builds get_builds_two_builds get_snap_build_hello2 p
    by simp
qed

text \<open>
  C9. Every result that \<^verbatim>\<open>validate_repo\<close> returns has the key \<^verbatim>\<open>error\<close> exactly when
  \<^verbatim>\<open>success\<close> is false, and the type of the error is one of \<^verbatim>\<open>MISSING_YAML_FILE\<close>,
  \<^verbatim>\<open>SNAP_NAME_DOES_NOT_MATCH\<close> and \<^verbatim>\<open>INVALID_YAML_FILE\<close>. When parsing the
  \<^verbatim>\<open>snapcraft.yaml\<close> raises \<^verbatim>\<open>InvalidYAML\<close>, the exception is caught and the result
  reports \<^verbatim>\<open>INVALID_YAML_FILE\<close>.
\<close>

theorem validate_repo_result:
  "(validate_repo env github_token snap_name gh_owner gh_repo = Inr v \<longrightarrow>
      (error v \<noteq> None \<longleftrightarrow> \<not> success v) \<and>
      (\<forall>e. error v = Some e \<longrightarrow>
         error_type e \<in> {''MISSING_YAML_FILE'', ''SNAP_NAME_DOES_NOT_MATCH'',
                          ''INVALID_YAML_FILE''})) \<and>
   (get_snapcraft_yaml_location (gh env) github_token gh_owner gh_repo = Inr loc \<and>
    truthy loc \<and>
    get_snapcraft_yaml_name (gh env) github_token gh_owner gh_repo = Inl InvalidYAML \<longrightarrow>
      (\<exists>e. validate_repo env github_token snap_name gh_owner gh_repo =
              Inr \<lparr>success = False, error = Some e\<rparr> \<and>
            error_type e = ''INVALID_YAML_FILE''))"
  by (auto simp: validate_repo_def split: sum.splits if_splits py_exc.splits)

text \<open>A repository whose \<^verbatim>\<open>snapcraft.yaml\<close> does not parse.\<close>

theorem validate_repo_result_witness:
  "validate_repo (an_env (a_launchpad []) (a_github (Inl InvalidYAML) True))
      (Some ''secret'') (Some ''hello'') ''canonical'' ''hello'' =
     Inr \<lparr>success = False,
          error = Some \<lparr>error_type = ''INVALID_YAML_FILE'',
            message = ''Invalid snapcraft.yaml: there was an issue parsing the snapcraft.yaml for hello.'',
            yaml_location = None, gh_snap_name = None\<rparr>\<rparr>"
proof -
  let ?env = "an_env (a_launchpad []) (a_github (Inl InvalidYAML) True)"
  have h: "get_snapcraft_yaml_location (gh ?env) (Some ''secret'') ''canonical'' ''hello''
             = Inr (Some ''snap/snapcraft.yaml'') \<and>
           truthy (Some ''snap/snapcraft.yaml'') \<and>
           get_snapcraft_yaml_name (gh ?env) (Some ''secret'') ''canonical'' ''hello''
             = Inl InvalidYAML"
    by (simp add: an_env_def a_github_def truthy_def)
  from validate_repo_result[of ?env "Some ''secret''" "Some ''hello''" "''canonical''" "''hello''"
      "\<lparr>success = False,
          error = Some \<lparr>error_type = ''INVALID_YAML_FILE'',
            message = ''Invalid snapcraft.yaml: there was an issue parsing the snapcraft.yaml for hello.'',
            yaml_location = None, gh_snap_name = None\<rparr>\<rparr>" "Some ''snap/snapcraft.yaml''"] h
  obtain e where "validate_repo ?env (Some ''secret'') (Some ''hello'') ''canonical'' ''hello'' =
              Inr \<lparr>success = False, error = Some e\<rparr>" by blast
  then show ?thesis by (simp add: validate_repo_def an_env_def a_github_def truthy_def py_str_def split: if_splits)
qed

text \<open>
  C5. For every pair of a farm state and an upload state of which one is not in the
  known vocabulary, the reconciliation returns the designated default status and
  does not raise.
\<close>

theorem reconcile_unknown_default:
  "farmState \<notin> set (known_farm_states table) \<or>
   uploadState \<notin> set (known_upload_states table) \<Longrightarrow>
   reconcile table default_status farmState uploadState = Inr default_status"
proof -
  assume a: "farmState \<notin> set (known_farm_states table) \<or>
   uploadState \<notin> set (known_upload_states table)"
  have "(farmState, uploadState) \<notin> fst ` set table"
  proof
    assume "(farmState, uploadState) \<in> fst ` set table"
    then obtain st where "((farmState, uploadState), st) \<in> set table" by auto
    then have "farmState \<in> set (known_farm_states table)"
      and "uploadState \<in> set (known_upload_states table)"
      by (force simp: known_farm_states_def known_upload_states_def)+
    with a show False by blast
  qed
  then have "map_of table (farmState, uploadState) = None"
    by (simp add: map_of_eq_None_iff)
  then show ?thesis by (simp add: reconcile_def)
qed

text \<open>A farm state that a table of two rows does not list.\<close>

theorem reconcile_unknown_default_witness:
  "reconcile [((''Successfully built'', Some ''Uploaded''), ''released''),
              ((''Needs building'', None), ''building_soon'')]
     ''unknown'' ''Chroot problem'' None = Inr ''unknown''"
proof -
  have h: "''Chroot problem'' \<notin> set (known_farm_states
             [((''Successfully built'', Some ''Uploaded''), ''released''),
              ((''Needs building'', None), ''building_soon'')]) \<or>
           None \<notin> set (known_upload_states
             [((''Successfully built'', Some ''Uploaded''), ''released''),
              ((''Needs building'', None), ''building_soon'')])"
    by (simp add: known_farm_states_def)
  show ?thesis by (rule reconcile_unknown_default[OF h])
qed




text \<open>
  C7. For every request to \<^verbatim>\<open>post_build\<close> by a publisher of the snap where a call to the
  build farm, \<^verbatim>\<open>is_snap_building\<close>, \<^verbatim>\<open>cancel_snap_builds\<close> or \<^verbatim>\<open>build_snap\<close>, raises an
  \<^verbatim>\<open>HTTPError\<close>: with status 408 or 404 the handler returns the JSON body with
  \<^verbatim>\<open>success\<close> false; with any other status the \<^verbatim>\<open>HTTPError\<close> propagates.
\<close>

theorem post_build_upstream_failure:
  assumes "get_account_snaps (dashboard env) = Inr account_snaps"
    and "snap_name \<in> set account_snaps"
    and "is_snap_building (lp env) (Some snap_name) = Inl (HTTPError c) \<or>
         (is_snap_building (lp env) (Some snap_name) = Inr True \<and>
          cancel_snap_builds (lp env) (Some snap_name) = Inl (HTTPError c)) \<or>
         ((is_snap_building (lp env) (Some snap_name) = Inr False \<or>
           (is_snap_building (lp env) (Some snap_name) = Inr True \<and>
            cancel_snap_builds (lp env) (Some snap_name) = Inr ())) \<and>
          build_snap (lp env) (Some snap_name) = Inl (HTTPError c))"
  shows "fst (run (post_build env snap_name)) =
           (if c = 408 \<or> c = 404
            then Inr (JsonResult \<lparr>success = False, error = None\<rparr>)
            else Inl (HTTPError c))"
  using assms
  by (auto simp: post_build_def request_build_def io_defs)

text \<open>A farm whose \<^verbatim>\<open>build_snap\<close> times out, and one whose \<^verbatim>\<open>build_snap\<close> answers 500.\<close>

theorem post_build_upstream_failure_witness:
  "fst (run (post_build
          (an_env ((a_launchpad two_builds)\<lparr>build_snap := (\<lambda>_. Inl (HTTPError 408))\<rparr>)
             (a_github (Inr ''hello'') True)) ''hello'')) =
     Inr (JsonResult \<lparr>success = False, error = None\<rparr>) \<and>
   fst (run (post_build
          (an_env ((a_launchpad two_builds)\<lparr>build_snap := (\<lambda>_. Inl (HTTPError 500))\<rparr>)
             (a_github (Inr ''hello'') True)) ''hello'')) =
     Inl (HTTPError 500)"
proof -
  let ?env = "\<lambda>c. an_env ((a_launchpad two_builds)\<lparr>build_snap := (\<lambda>_. Inl (HTTPError c))\<rparr>)
             (a_github (Inr ''hello'') True)"
  have a: "get_account_snaps (dashboard (?env c)) = Inr [''hello'']" for c
    by (simp add: an_env_def a_dashboard_def)
  have m: "''hello'' \<in> set [''hello'']" by simp
  have f: "is_snap_building (lp (?env c)) (Some ''hello'') = Inl (HTTPError c) \<or>
         (is_snap_building (lp (?env c)) (Some ''hello'') = Inr True \<and>
          cancel_snap_builds (lp (?env c)) (Some ''hello'') = Inl (HTTPError c)) \<or>
         ((is_snap_building (lp (?env c)) (Some ''hello'') = Inr False \<or>
           (is_snap_building (lp (?env c)) (Some ''hello'') = Inr True \<and>
            cancel_snap_builds (lp (?env c)) (Some ''hello'') = Inr ())) \<and>
          build_snap (lp (?env c)) (Some ''hello'') = Inl (HTTPError c))" for c
    by (simp add: an_env_def a_launchpad_def)
  show ?thesis
    using post_build_upstream_failure[OF a m f, of 408] post_build_upstream_failure[OF a m f, of 500]
    by simp
qed

text \<open>
  C3. For every request to \<^verbatim>\<open>post_snap_builds\<close> for a repository whose \<^verbatim>\<open>snapcraft.yaml\<close>
  declares a name other than the name of the snap, the validation fails with an error
  of type \<^verbatim>\<open>SNAP_NAME_DOES_NOT_MATCH\<close>, and the handler calls neither
  \<^verbatim>\<open>launchpad.create_snap\<close> nor \<^verbatim>\<open>github.create_hook\<close>. When the request gets as far as
  the validation, the handler flashes the message of the error and redirects.
\<close>

theorem post_snap_builds_name_mismatch:
  assumes "unpack2 (split CHR ''/'' github_repository) = Inr (owner, repo)"
    and "get_snapcraft_yaml_location (gh env) (github_auth_secret env) owner repo = Inr loc"
    and "truthy loc"
    and "get_snapcraft_yaml_name (gh env) (github_auth_secret env) owner repo = Inr declared"
    and "declared \<noteq> snap_name"
  shows "(\<exists>e. validate_repo env (github_auth_secret env) (Some snap_name) owner repo =
                Inr \<lparr>success = False, error = Some e\<rparr> \<and>
              error_type e = ''SNAP_NAME_DOES_NOT_MATCH'' \<and>
              (get_snap_info (dashboard env) snap_name = Inr details \<and>
               get_account_snaps (dashboard env) = Inr account_snaps \<and>
               snap_name \<in> set account_snaps \<and>
               check_permissions_over_repo (gh env) (github_auth_secret env) owner repo = Inr True
               \<longrightarrow> run (post_snap_builds env snap_name (Some github_repository)) =
                     (Inr (Redirect (UrlFor ''.get_snap_builds'' snap_name)),
                      [Flash (message e) ''negative'']))) \<and>
         \<not> list_ex creates (snd (run (post_snap_builds env snap_name (Some github_repository))))"
proof -
  from validate_repo_mismatch[OF assms(2,3,4), of "Some snap_name"] assms(5)
  obtain e where v: "validate_repo env (github_auth_secret env) (Some snap_name) owner repo =
                Inr \<lparr>success = False, error = Some e\<rparr>"
    and t: "error_type e = ''SNAP_NAME_DOES_NOT_MATCH''" by auto
  have reached: "get_snap_info (dashboard env) snap_name = Inr details \<and>
               get_account_snaps (dashboard env) = Inr account_snaps \<and>
               snap_name \<in> set account_snaps \<and>
               check_permissions_over_repo (gh env) (github_auth_secret env) owner repo = Inr True
               \<longrightarrow> run (post_snap_builds env snap_name (Some github_repository)) =
                     (Inr (Redirect (UrlFor ''.get_snap_builds'' snap_name)),
                      [Flash (message e) ''negative''])"
    using v assms(1) by (simp add: post_snap_builds_def snap_details_def io_defs)
  have none: "\<not> list_ex creates (snd (run (post_snap_builds env snap_name (Some github_repository))))"
    using v assms(1)
    by (auto simp: post_snap_builds_def snap_details_def io_defs list_ex_iff Let_def
        split: sum.splits py_exc.splits if_splits)
  from v t reached none show ?thesis by blast
qed

text \<open>The repository \<open>canonical/hello\<close> declaring the name \<open>goodbye\<close>.\<close>

theorem post_snap_builds_name_mismatch_witness:
  "run (post_snap_builds (an_env (a_launchpad []) (a_github (Inr ''goodbye'') True))
          ''hello'' (Some ''canonical/hello'')) =
     (Inr (Redirect (UrlFor ''.get_snap_builds'' ''hello'')),
      [Flash ''Name mismatch: the snapcraft.yaml uses the snap name \"goodbye\", but you've registered the name \"hello\". Update your snapcraft.yaml to continue.'' ''negative'']) \<and>
   \<not> list_ex creates (snd (run (post_snap_builds
        (an_env (a_launchpad []) (a_github (Inr ''goodbye'') True))
        ''hello'' (Some ''canonical/hello''))))"
proof -
  let ?env = "an_env (a_launchpad []) (a_github (Inr ''goodbye'') True)"
  have h1: "unpack2 (split CHR ''/'' ''canonical/hello'') = Inr (''canonical'', ''hello'')"
    by (simp add: unpack2_def)
  have h2: "get_snapcraft_yaml_location (gh ?env) (github_auth_secret ?env) ''canonical'' ''hello''
              = Inr (Some ''snap/snapcraft.yaml'')"
    by (simp add: an_env_def a_github_def)
  have h3: "truthy (Some ''snap/snapcraft.yaml'')" by (simp add: truthy_def)
  have h4: "get_snapcraft_yaml_name (gh ?env) (github_auth_secret ?env) ''canonical'' ''hello''
              = Inr ''goodbye''"
    by (simp add: an_env_def a_github_def)
  have h5: "''goodbye'' \<noteq> ''hello''" by simp
  have r: "run (post_snap_builds ?env ''hello'' (Some ''canonical/hello'')) =
     (Inr (Redirect (UrlFor ''.get_snap_builds'' ''hello'')),
      [Flash ''Name mismatch: the snapcraft.yaml uses the snap name \"goodbye\", but you've registered the name \"hello\". Update your snapcraft.yaml to continue.'' ''negative''])"
    by (simp add: post_snap_builds_def snap_details_def io_defs an_env_def a_launchpad_def
      a_github_def a_dashboard_def validate_repo_def truthy_def unpack2_def py_str_def)
  show ?thesis
    using post_snap_builds_name_mismatch[OF h1 h2 h3 h4 h5] r by simp
qed

text \<open>
  C2. A webhook request whose pushed ref, without its refs-prefix, differs from the
  default branch should get the no-op 200 and trigger no build. The push of the tag
  \<open>xmain\<close> to a repository whose default branch is \<open>main\<close> is such a request: the ref
  \<^verbatim>\<open>refs/tags/xmain\<close> without its prefix is \<open>xmain\<close>. The handler removes eleven
  characters, the length of \<^verbatim>\<open>refs/heads/\<close>, compares \<open>main\<close> with the default branch,
  and goes on to request a build and to answer 204.
\<close>

theorem post_github_webhook_tag_push:
  "strip_refs_prefix (ref (json (a_push ''refs/tags/xmain''))) = ''xmain'' \<and>
   default_branch (repository (json (a_push ''refs/tags/xmain''))) = ''main'' \<and>
   run (post_github_webhook (hello_env two_builds) (Some ''hello'')
          (a_push ''refs/tags/xmain'')) =
     (Inr (Text [] 204), [BuildSnap (Some ''hello'')])"
  by (simp add: strip_refs_prefix_def post_github_webhook_def io_defs Let_def hello_env_def
      an_env_def a_launchpad_def a_github_def a_push_def hello_snap_def webhook_snap_def
      truthy_def validate_repo_def request_build_def)

text \<open>
  C6. The JSON list of builds, asked for \<open>start = 2\<close> and \<open>size = 2\<close> of four builds,
  is empty, while the page of at most two builds from offset 2 holds the builds 2 and
  1: the code slices from \<open>start\<close> to the index \<open>size\<close>.
\<close>

theorem get_snap_builds_json_second_page:
  "get_snap_builds_json (hello_env four_builds) ''hello'' (Some 2) (Some 2) =
     Inr (JsonBuilds \<lparr>json_total_builds = Some 4, json_snap_builds = []\<rparr>)"
  by (simp add: get_snap_builds_json_def snap_details_def get_builds_def hello_env_def four_builds_def a_record_def an_env_def
      a_launchpad_def a_dashboard_def a_build_def hello_snap_def adjust_index_def self_link_id_def
      getitem_last_def)

end
